theory Spec2Isabelle
  imports Main "HOL-Library.Sublist"
begin

section \<open>Python values, errors and JSON text\<close>

text \<open>
  The notebook \<^verbatim>\<open>Mixture-of-Agents-Phidata-Groq.ipynb\<close> defines three tool functions
  (\<^verbatim>\<open>get_game_info\<close>, \<^verbatim>\<open>get_batting_stats\<close>, \<^verbatim>\<open>get_pitching_stats\<close>), seven assistants
  and one pipeline cell. Strings are modelled as \<^typ>\<open>string\<close>; a \<^typ>\<open>char\<close> stands for the
  code point of the same number, so the model covers text whose code points are below 256.
  The values the statistics service delivers in the cells the code reads are integers and
  strings; floating point values are not modelled.
\<close>

datatype pyval = PInt int | PStr string

text \<open>
  Every exception of the Python code is a value. \<open>KeyError\<close> is a missing data-frame column,
  \<open>IndexError\<close> is \<^verbatim>\<open>[0]\<close> on an empty list, \<open>ReError\<close> is \<^verbatim>\<open>re.error\<close> raised for an invalid
  pattern, \<open>OverflowError\<close> is date arithmetic leaving the supported range and
  \<open>ServiceFault\<close> is any exception raised by an external service call (the statistics
  service or a hosted language model). \<open>Unmodelled\<close> is not a Python exception: it marks a
  pattern that uses regular-expression syntax outside the fragment modelled below, and no
  result is drawn from it.
\<close>

datatype error = KeyError | IndexError | ReError | OverflowError | ServiceFault string | Unmodelled

fun digits :: "nat \<Rightarrow> string" where
  "digits n =
     (if n < 10 then [''0123456789'' ! n]
      else digits (n div 10) @ [''0123456789'' ! (n mod 10)])"

definition str_int :: "int \<Rightarrow> string" where
  "str_int i = (if i < 0 then CHR ''-'' # digits (nat (- i)) else digits (nat i))"

text \<open>Python's \<^verbatim>\<open>str(v)\<close>.\<close>

fun py_str :: "pyval \<Rightarrow> string" where
  "py_str (PInt i) = str_int i"
| "py_str (PStr s) = s"

text \<open>Python's \<^verbatim>\<open>sep.join(xs)\<close>.\<close>

fun join :: "string \<Rightarrow> string list \<Rightarrow> string" where
  "join sep [] = []"
| "join sep [x] = x"
| "join sep (x # y # ys) = x @ sep @ join sep (y # ys)"

definition hex2 :: "char \<Rightarrow> string" where
  "hex2 c =
     (let n = (of_char c :: nat)
      in [''0123456789abcdef'' ! (n div 16), ''0123456789abcdef'' ! (n mod 16)])"

text \<open>
  \<^verbatim>\<open>json.dumps\<close> with its defaults (\<^verbatim>\<open>ensure_ascii=True\<close>, separators \<^verbatim>\<open>", "\<close> and \<^verbatim>\<open>": "\<close>):
  the quote and the backslash are escaped, the control characters 8, 9, 10, 12 and 13 have
  short escapes, printable ASCII is kept and every other code point is written
  \<^verbatim>\<open>\u00XX\<close>.
\<close>

definition json_escape :: "char \<Rightarrow> string" where
  "json_escape c =
     (if c = CHR 0x22 then [CHR 0x5C, CHR 0x22]
      else if c = CHR 0x5C then [CHR 0x5C, CHR 0x5C]
      else if c = CHR 0x0A then [CHR 0x5C, CHR ''n'']
      else if c = CHR 0x0D then [CHR 0x5C, CHR ''r'']
      else if c = CHR 0x09 then [CHR 0x5C, CHR ''t'']
      else if c = CHR 0x08 then [CHR 0x5C, CHR ''b'']
      else if c = CHR 0x0C then [CHR 0x5C, CHR ''f'']
      else if 32 \<le> (of_char c :: nat) \<and> (of_char c :: nat) \<le> 126 then [c]
      else [CHR 0x5C, CHR ''u'', CHR ''0'', CHR ''0''] @ hex2 c)"

definition json_string :: "string \<Rightarrow> string" where
  "json_string s = CHR 0x22 # concat (map json_escape s) @ [CHR 0x22]"

fun dumps_val :: "pyval \<Rightarrow> string" where
  "dumps_val (PInt i) = str_int i"
| "dumps_val (PStr s) = json_string s"

definition dumps_dict :: "(string \<times> pyval) list \<Rightarrow> string" where
  "dumps_dict d =
     ''{'' @ join '', '' (map (\<lambda>(k, v). json_string k @ '': '' @ dumps_val v) d) @ ''}''"

definition dumps_records :: "(string \<times> pyval) list list \<Rightarrow> string" where
  "dumps_records rs = ''['' @ join '', '' (map dumps_dict rs) @ '']''"

text \<open>Python's \<^verbatim>\<open>xs[0]\<close>: IndexError on the empty list.\<close>

definition first :: "'a list \<Rightarrow> error + 'a" where
  "first xs = (case xs of [] \<Rightarrow> Inl IndexError | x # _ \<Rightarrow> Inr x)"

section \<open>Regular expressions: the pattern language of \<^verbatim>\<open>str.contains\<close>\<close>

text \<open>
  \<^verbatim>\<open>Series.str.contains(pat, case=False, na=False)\<close> keeps pandas' default \<^verbatim>\<open>regex=True\<close>: on
  a column of Python strings it compiles \<^verbatim>\<open>pat\<close> with \<^verbatim>\<open>re.IGNORECASE\<close> and tests every
  string cell with \<^verbatim>\<open>search\<close>; a missing cell gives the \<^verbatim>\<open>na\<close> value. The model covers the
  following fragment of Python's pattern syntax: literal characters, \<^verbatim>\<open>.\<close>, alternation
  \<^verbatim>\<open>|\<close>, groups \<^verbatim>\<open>( )\<close>, the greedy repeats \<^verbatim>\<open>*\<close>, \<^verbatim>\<open>+\<close>, \<^verbatim>\<open>?\<close> and a backslash before a
  character that is neither an ASCII letter nor a digit. The anchors, character sets,
  counted repeats, letter and digit escapes, \<^verbatim>\<open>(?\<close> groups and lazy or possessive
  repeats are outside the fragment.
\<close>

datatype regex =
    RNever
  | REps
  | RLit char
  | RDot
  | RAny
  | RSeq regex regex
  | RAlt regex regex
  | RStar regex

text \<open>
  The simple lower-case mapping that \<^verbatim>\<open>re.IGNORECASE\<close> applies to both sides, on code points
  below 256: the letters A to Z, and 0xC0 to 0xDE without the multiplication sign 0xD7,
  move up by 32 (bit 5 is set).
\<close>

definition py_lower :: "char \<Rightarrow> char" where
  "py_lower c =
     (let n = (of_char c :: nat)
      in if (65 \<le> n \<and> n \<le> 90) \<or> (192 \<le> n \<and> n \<le> 222 \<and> n \<noteq> 215)
         then (case c of Char b0 b1 b2 b3 b4 b5 b6 b7 \<Rightarrow> Char b0 b1 b2 b3 b4 True b6 b7)
         else c)"

fun nullable :: "regex \<Rightarrow> bool" where
  "nullable RNever = False"
| "nullable REps = True"
| "nullable (RLit c) = False"
| "nullable RDot = False"
| "nullable RAny = False"
| "nullable (RSeq r s) = (nullable r \<and> nullable s)"
| "nullable (RAlt r s) = (nullable r \<or> nullable s)"
| "nullable (RStar r) = True"

text \<open>
  The derivative of a pattern by one character of the text. A literal is compared case
  insensitively (the code always passes \<^verbatim>\<open>case=False\<close>); \<open>RDot\<close> is the pattern \<^verbatim>\<open>.\<close>,
  which matches everything but a newline; \<open>RAny\<close> matches every character and is only
  used by \<open>re_search\<close> for the text around the match.
\<close>

fun deriv :: "char \<Rightarrow> regex \<Rightarrow> regex" where
  "deriv c RNever = RNever"
| "deriv c REps = RNever"
| "deriv c (RLit d) = (if py_lower c = py_lower d then REps else RNever)"
| "deriv c RDot = (if c = CHR 0x0A then RNever else REps)"
| "deriv c RAny = REps"
| "deriv c (RSeq r s) =
     (if nullable r then RAlt (RSeq (deriv c r) s) (deriv c s) else RSeq (deriv c r) s)"
| "deriv c (RAlt r s) = RAlt (deriv c r) (deriv c s)"
| "deriv c (RStar r) = RSeq (deriv c r) (RStar r)"

definition fullmatch :: "regex \<Rightarrow> string \<Rightarrow> bool" where
  "fullmatch r s = nullable (fold deriv s r)"

text \<open>\<^verbatim>\<open>pattern.search(s) is not None\<close>: some substring of \<open>s\<close> matches.\<close>

definition re_search :: "regex \<Rightarrow> string \<Rightarrow> bool" where
  "re_search r s = fullmatch (RSeq (RStar RAny) (RSeq r (RStar RAny))) s"

datatype compiled = Compiled regex | BadPattern | OutsideFragment

text \<open>
  The parser reads the pattern from left to right, as \<^verbatim>\<open>sre_parse\<close> does. A branch is the
  list of the items read so far in the current alternative, the latest first, each with a
  flag that says whether it is a repeat; a frame is the list of the finished alternatives
  of the current group, the latest first, and the current branch.
\<close>

type_synonym re_branch = "(regex \<times> bool) list"
type_synonym re_frame = "regex list \<times> re_branch"

definition seq_of :: "re_branch \<Rightarrow> regex" where
  "seq_of items = foldr RSeq (rev (map fst items)) REps"

definition close_frame :: "re_frame \<Rightarrow> regex" where
  "close_frame fr = foldr RAlt (rev (seq_of (snd fr) # fst fr)) RNever"

definition is_ascii_alnum :: "char \<Rightarrow> bool" where
  "is_ascii_alnum c =
     (let n = (of_char c :: nat)
      in (48 \<le> n \<and> n \<le> 57) \<or> (65 \<le> n \<and> n \<le> 90) \<or> (97 \<le> n \<and> n \<le> 122))"

definition repeat_of :: "char \<Rightarrow> regex \<Rightarrow> regex" where
  "repeat_of q r =
     (if q = CHR ''*'' then RStar r
      else if q = CHR ''+'' then RSeq r (RStar r)
      else RAlt r REps)"

fun parse_re :: "string \<Rightarrow> re_frame list \<Rightarrow> re_frame \<Rightarrow> compiled" where
  "parse_re [] stack fr = (if stack = [] then Compiled (close_frame fr) else BadPattern)"
| "parse_re (c # cs) stack (alts, items) =
     (if c = CHR ''|'' then parse_re cs stack (seq_of items # alts, [])
      else if c = CHR ''('' then
        (if cs \<noteq> [] \<and> hd cs = CHR ''?'' then OutsideFragment
         else parse_re cs ((alts, items) # stack) ([], []))
      else if c = CHR '')'' then
        (case stack of
           [] \<Rightarrow> BadPattern
         | (a, i) # st \<Rightarrow> parse_re cs st (a, (close_frame (alts, items), False) # i))
      else if c = CHR ''*'' \<or> c = CHR ''+'' \<or> c = CHR ''?'' then
        (case items of
           [] \<Rightarrow> BadPattern
         | (r, rep) # its \<Rightarrow>
             if rep then BadPattern
             else if cs \<noteq> [] \<and> (hd cs = CHR ''?'' \<or> hd cs = CHR ''+'') then OutsideFragment
             else parse_re cs stack (alts, (repeat_of c r, True) # its))
      else if c = CHR 0x5C then
        (case cs of
           [] \<Rightarrow> BadPattern
         | d # ds \<Rightarrow>
             if is_ascii_alnum d then OutsideFragment
             else parse_re ds stack (alts, (RLit d, False) # items))
      else if c = CHR ''.'' then parse_re cs stack (alts, (RDot, False) # items)
      else if c = CHR ''^'' \<or> c = CHR ''$'' \<or> c = CHR ''['' \<or> c = CHR ''{'' then OutsideFragment
      else parse_re cs stack (alts, (RLit c, False) # items))"

text \<open>\<^verbatim>\<open>re.compile(pat, flags=re.IGNORECASE)\<close>.\<close>

definition re_compile :: "string \<Rightarrow> compiled" where
  "re_compile pat = parse_re pat [] ([], [])"

text \<open>
  \<^verbatim>\<open>col.str.contains(pat, case=False, na=False)\<close> on a column whose cells are strings or
  missing (\<open>None\<close>): the pattern is compiled once, then every cell is tested.
\<close>

definition str_contains :: "string option list \<Rightarrow> string \<Rightarrow> error + bool list" where
  "str_contains col pat =
     (case re_compile pat of
        BadPattern \<Rightarrow> Inl ReError
      | OutsideFragment \<Rightarrow> Inl Unmodelled
      | Compiled rx \<Rightarrow>
          Inr (map (\<lambda>x. case x of None \<Rightarrow> False | Some s \<Rightarrow> re_search rx s) col))"

text \<open>\<^verbatim>\<open>df[mask]\<close>: the rows of the frame at which the selector is true.\<close>

definition boolean_index :: "'a list \<Rightarrow> bool list \<Rightarrow> 'a list" where
  "boolean_index df sel = map fst (filter snd (zip df sel))"

section \<open>The tool \<^verbatim>\<open>get_game_info\<close>\<close>

text \<open>
  One entry of the list that \<^verbatim>\<open>statsapi.schedule\<close> returns, with the keys the tool reads.
  The statistics service is external: it is a parameter \<open>schedule\<close> of the tool, a function
  of the upstream data \<open>u\<close> and of the two dates, that may fail.
\<close>

record game =
  game_id :: pyval
  summary :: "string option"
  home_name :: pyval
  home_score :: pyval
  away_name :: pyval
  away_score :: pyval
  winning_team :: pyval
  series_status :: pyval

type_synonym 'u schedule_service = "'u \<Rightarrow> string \<Rightarrow> string \<Rightarrow> error + game list"

text \<open>
  The dictionary \<^verbatim>\<open>game_info\<close>: each of its seven values is \<^verbatim>\<open>column.tolist()[0]\<close> of the
  filtered frame, in the order of the source.
\<close>

definition game_info :: "game list \<Rightarrow> error + (string \<times> pyval) list" where
  "game_info game_info_df =
     (case first (map game_id game_info_df) of Inl e \<Rightarrow> Inl e | Inr gid \<Rightarrow>
     (case first (map home_name game_info_df) of Inl e \<Rightarrow> Inl e | Inr hn \<Rightarrow>
     (case first (map home_score game_info_df) of Inl e \<Rightarrow> Inl e | Inr hs \<Rightarrow>
     (case first (map away_name game_info_df) of Inl e \<Rightarrow> Inl e | Inr an \<Rightarrow>
     (case first (map away_score game_info_df) of Inl e \<Rightarrow> Inl e | Inr as \<Rightarrow>
     (case first (map winning_team game_info_df) of Inl e \<Rightarrow> Inl e | Inr wt \<Rightarrow>
     (case first (map series_status game_info_df) of Inl e \<Rightarrow> Inl e | Inr ss \<Rightarrow>
        Inr [(''game_id'', PStr (py_str gid)),
             (''home_team'', hn),
             (''home_score'', hs),
             (''away_team'', an),
             (''away_score'', as),
             (''winning_team'', wt),
             (''series_status'', ss)])))))))"

text \<open>
  \<^verbatim>\<open>pd.DataFrame(sched)\<close> of an empty list has no columns, so \<^verbatim>\<open>sched_df['summary']\<close> raises
  KeyError there. \<open>matching_games\<close> is the frame \<^verbatim>\<open>game_info_df\<close>.
\<close>

definition matching_games :: "game list \<Rightarrow> string \<Rightarrow> error + game list" where
  "matching_games sched team_name =
     (if sched = [] then Inl KeyError
      else case str_contains (map summary sched) team_name of
             Inl e \<Rightarrow> Inl e
           | Inr sel \<Rightarrow> Inr (boolean_index sched sel))"

definition get_game_info ::
  "'u schedule_service \<Rightarrow> 'u \<Rightarrow> string \<Rightarrow> string \<Rightarrow> error + string" where
  "get_game_info schedule u game_date team_name =
     (case schedule u game_date game_date of
        Inl e \<Rightarrow> Inl e
      | Inr sched \<Rightarrow>
          (case matching_games sched team_name of
             Inl e \<Rightarrow> Inl e
           | Inr game_info_df \<Rightarrow>
               (case game_info game_info_df of
                  Inl e \<Rightarrow> Inl e
                | Inr d \<Rightarrow> Inr (dumps_dict d))))"

section \<open>The tools \<^verbatim>\<open>get_batting_stats\<close> and \<^verbatim>\<open>get_pitching_stats\<close>\<close>

text \<open>
  \<^verbatim>\<open>statsapi.boxscore_data\<close> returns a dictionary. A row of one of its four tables has the
  join key \<^verbatim>\<open>name\<close> and further cells, read by their column label; an entry of
  \<^verbatim>\<open>playerInfo\<close> has \<^verbatim>\<open>boxscoreName\<close> and \<^verbatim>\<open>fullName\<close>. The names are strings. The column
  labels of the tables and of the player entries are taken to be disjoint, as the service
  delivers them, so the merge renames no column.
\<close>

record box_row =
  name :: string
  cells :: "string \<Rightarrow> pyval"

record player =
  boxscoreName :: string
  fullName :: pyval

record team =
  teamName :: pyval

record team_info =
  away :: team
  home :: team

record boxscore =
  playerInfo :: "(string \<times> player) list"
  awayBatters :: "box_row list"
  homeBatters :: "box_row list"
  awayPitchers :: "box_row list"
  homePitchers :: "box_row list"
  teamInfo :: team_info

type_synonym 'u boxscore_service = "'u \<Rightarrow> string \<Rightarrow> error + boxscore"

text \<open>
  A data frame is its rows together with a flag that says whether it has the columns of
  its row type: a frame built from an empty list or dictionary has none, and keeps none
  when rows are sliced away.
\<close>

type_synonym 'a frame = "bool \<times> 'a list"

definition DataFrame :: "'a list \<Rightarrow> 'a frame" where
  "DataFrame xs = (xs \<noteq> [], xs)"

text \<open>\<^verbatim>\<open>df.iloc[1:]\<close>: every row but the first.\<close>

definition iloc_from_1 :: "'a frame \<Rightarrow> 'a frame" where
  "iloc_from_1 df = (fst df, drop 1 (snd df))"

text \<open>\<^verbatim>\<open>df['team_name'] = v\<close>: the new column holds \<open>v\<close> in every row.\<close>

definition set_team_name :: "pyval \<Rightarrow> 'a frame \<Rightarrow> (pyval \<times> 'a) frame" where
  "set_team_name v df = (fst df, map (Pair v) (snd df))"

text \<open>\<^verbatim>\<open>pd.concat([a, b])\<close>: the rows of \<open>a\<close>, then those of \<open>b\<close>; the columns of both.\<close>

definition concat_frames :: "'a frame \<Rightarrow> 'a frame \<Rightarrow> 'a frame" where
  "concat_frames a b = (fst a \<or> fst b, snd a @ snd b)"

text \<open>
  \<^verbatim>\<open>left.merge(right, left_on='name', right_on='boxscoreName')\<close>: the default inner join.
  A key column that does not exist raises KeyError; otherwise every pair of a left and a
  right row with equal keys gives one row, in the order of the left rows.
\<close>

definition merge ::
  "(pyval \<times> box_row) frame \<Rightarrow> player frame \<Rightarrow> error + ((pyval \<times> box_row) \<times> player) list" where
  "merge left right =
     (if \<not> fst right \<or> \<not> fst left then Inl KeyError
      else Inr (concat (map (\<lambda>l. map (Pair l) (filter (\<lambda>p. name (snd l) = boxscoreName p) (snd right)))
                            (snd left))))"

text \<open>One cell of a merged row, by column label.\<close>

definition cell :: "(pyval \<times> box_row) \<times> player \<Rightarrow> string \<Rightarrow> pyval" where
  "cell m c =
     (if c = ''team_name'' then fst (fst m)
      else if c = ''fullName'' then fullName (snd m)
      else if c = ''boxscoreName'' then PStr (boxscoreName (snd m))
      else if c = ''name'' then PStr (name (snd (fst m)))
      else cells (snd (fst m)) c)"

text \<open>\<^verbatim>\<open>df[cols].to_dict(orient='records')\<close>.\<close>

definition to_records ::
  "string list \<Rightarrow> ((pyval \<times> box_row) \<times> player) list \<Rightarrow> (string \<times> pyval) list list" where
  "to_records cols df = map (\<lambda>m. map (\<lambda>c. (c, cell m c)) cols) df"

definition player_info_df :: "boxscore \<Rightarrow> player frame" where
  "player_info_df boxscores = (playerInfo boxscores \<noteq> [], map snd (playerInfo boxscores))"

definition batters_box_df :: "boxscore \<Rightarrow> error + ((pyval \<times> box_row) \<times> player) list" where
  "batters_box_df boxscores =
     (let away_batters_box =
            set_team_name (teamName (away (teamInfo boxscores)))
              (iloc_from_1 (DataFrame (awayBatters boxscores)));
          home_batters_box =
            set_team_name (teamName (home (teamInfo boxscores)))
              (iloc_from_1 (DataFrame (homeBatters boxscores)))
      in merge (concat_frames away_batters_box home_batters_box) (player_info_df boxscores))"

definition batting_stats :: "boxscore \<Rightarrow> error + (string \<times> pyval) list list" where
  "batting_stats boxscores =
     (case batters_box_df boxscores of
        Inl e \<Rightarrow> Inl e
      | Inr df \<Rightarrow>
          Inr (to_records [''team_name'', ''fullName'', ''position'', ''ab'', ''r'', ''h'', ''hr'',
                           ''rbi'', ''bb'', ''sb''] df))"

definition get_batting_stats :: "'u boxscore_service \<Rightarrow> 'u \<Rightarrow> string \<Rightarrow> error + string" where
  "get_batting_stats boxscore_data u gid =
     (case boxscore_data u gid of
        Inl e \<Rightarrow> Inl e
      | Inr boxscores \<Rightarrow>
          (case batting_stats boxscores of
             Inl e \<Rightarrow> Inl e
           | Inr recs \<Rightarrow> Inr (dumps_records recs)))"

definition pitchers_box_df :: "boxscore \<Rightarrow> error + ((pyval \<times> box_row) \<times> player) list" where
  "pitchers_box_df boxscores =
     (let away_pitchers_box =
            set_team_name (teamName (away (teamInfo boxscores)))
              (iloc_from_1 (DataFrame (awayPitchers boxscores)));
          home_pitchers_box =
            set_team_name (teamName (home (teamInfo boxscores)))
              (iloc_from_1 (DataFrame (homePitchers boxscores)))
      in merge (concat_frames away_pitchers_box home_pitchers_box) (player_info_df boxscores))"

definition pitching_stats :: "boxscore \<Rightarrow> error + (string \<times> pyval) list list" where
  "pitching_stats boxscores =
     (case pitchers_box_df boxscores of
        Inl e \<Rightarrow> Inl e
      | Inr df \<Rightarrow>
          Inr (to_records [''team_name'', ''fullName'', ''ip'', ''h'', ''r'', ''er'', ''bb'', ''k'',
                           ''note''] df))"

definition get_pitching_stats :: "'u boxscore_service \<Rightarrow> 'u \<Rightarrow> string \<Rightarrow> error + string" where
  "get_pitching_stats boxscore_data u gid =
     (case boxscore_data u gid of
        Inl e \<Rightarrow> Inl e
      | Inr boxscores \<Rightarrow>
          (case pitching_stats boxscores of
             Inl e \<Rightarrow> Inl e
           | Inr recs \<Rightarrow> Inr (dumps_records recs)))"

section \<open>The default date\<close>

text \<open>
  A calendar date as \<^verbatim>\<open>datetime.date\<close> holds it. \<open>minus_one_day\<close> is
  \<^verbatim>\<open>d - timedelta(1)\<close>, which raises OverflowError below the first day of year 1;
  \<open>isoformat\<close> is \<^verbatim>\<open>str(d)\<close>, the text an f-string inserts.
\<close>

record date =
  year :: nat
  month :: nat
  day :: nat

definition is_leap :: "nat \<Rightarrow> bool" where
  "is_leap y = (y mod 4 = 0 \<and> (y mod 100 \<noteq> 0 \<or> y mod 400 = 0))"

definition days_in_month :: "nat \<Rightarrow> nat \<Rightarrow> nat" where
  "days_in_month y m =
     (if m = 2 then (if is_leap y then 29 else 28)
      else if m = 4 \<or> m = 6 \<or> m = 9 \<or> m = 11 then 30
      else 31)"

definition minus_one_day :: "date \<Rightarrow> error + date" where
  "minus_one_day d =
     (if 1 < day d then Inr (d\<lparr>day := day d - 1\<rparr>)
      else if 1 < month d then
        Inr (d\<lparr>month := month d - 1, day := days_in_month (year d) (month d - 1)\<rparr>)
      else if 1 < year d then Inr \<lparr>year = year d - 1, month = 12, day = 31\<rparr>
      else Inl OverflowError)"

definition zero_pad :: "nat \<Rightarrow> nat \<Rightarrow> string" where
  "zero_pad w n = replicate (w - length (digits n)) (CHR ''0'') @ digits n"

definition isoformat :: "date \<Rightarrow> string" where
  "isoformat d = zero_pad 4 (year d) @ ''-'' @ zero_pad 2 (month d) @ ''-'' @ zero_pad 2 (day d)"

section \<open>The assistants\<close>

text \<open>
  An assistant is a configuration: the identifier of its language model, a description,
  its instructions and its tools. The four models are those of the configuration cell; the
  API key is external configuration and is left out.
\<close>

datatype tool = get_game_info_tool | get_batting_stats_tool | get_pitching_stats_tool

record assistant =
  llm :: string
  description :: string
  instructions :: "string list"
  tools :: "tool list"

definition llm_llama70b :: string where
  "llm_llama70b = ''llama3-70b-8192''"

definition llm_llama8b :: string where
  "llm_llama8b = ''llama3-groq-8b-8192-tool-use-preview''"

definition llm_gemma2 :: string where
  "llm_gemma2 = ''gemma2-9b-it''"

definition llm_mixtral :: string where
  "llm_mixtral = ''mixtral-8x7b-32768''"

text \<open>
  The globals that the agent-definition cell binds. The cell reads the clock once, when it
  is executed: \<open>define_agents today\<close> is the state it leaves when the clock shows \<open>today\<close>.
  Its first line computes \<open>default_date\<close>; \<open>assistants_with d\<close> is the rest of the cell, the
  seven assistants, with \<open>d\<close> the value of \<open>default_date\<close>. The f-string of the researcher's
  first instruction is formatted there, with the value \<open>default_date\<close> has at that moment.
\<close>

record notebook =
  default_date :: date
  mlb_researcher :: assistant
  mlb_batting_statistician :: assistant
  mlb_pitching_statistician :: assistant
  mlb_writer_llama :: assistant
  mlb_writer_gemma :: assistant
  mlb_writer_mixtral :: assistant
  mlb_editor :: assistant

definition parse_instruction :: "date \<Rightarrow> string" where
  "parse_instruction d =
     ''Parse the Team and date (use '' @ isoformat d
       @ '' if user does not specify) from the user question.''"

definition assistants_with :: "date \<Rightarrow> notebook" where
  "assistants_with d =
     \<lparr>default_date = d,
      mlb_researcher =
        \<lparr>llm = llm_mixtral,
         description = ''An detailed accurate MLB researcher extracts game information from the user question'',
         instructions =
           [parse_instruction d,
            ''Pass to your get_game_info tool'',
            join [CHR 0x0A]
            ['''',
             ''        Respond in the following format:'',
             ''            game_id: game_id'',
             ''            home_team: home_team'',
             ''            home_score: home_score'',
             ''            away_team: away_team'',
             ''            away_score: away_score'',
             ''            winning_team: winning_team'',
             ''            series_status: series_status'',
             ''        '']],
         tools = [get_game_info_tool]\<rparr>,
      mlb_batting_statistician =
        \<lparr>llm = llm_mixtral,
         description = ''An industrious MLB Statistician analyzing player boxscore stats for the relevant game'',
         instructions =
           [''Given information about a MLB game, retrieve ONLY boxscore player batting stats for the game identified by the MLB Researcher'',
            ''Your analysis should be atleast 500 words long, and include inning-by-inning statistical summaries''],
         tools = [get_batting_stats_tool]\<rparr>,
      mlb_pitching_statistician =
        \<lparr>llm = llm_mixtral,
         description = ''An industrious MLB Statistician analyzing player boxscore stats for the relevant game'',
         instructions =
           [''Given information about a MLB game, retrieve ONLY boxscore player pitching stats for a specific game'',
            ''Your analysis should be atleast 500 words long, and include inning-by-inning statistical summaries''],
         tools = [get_pitching_stats_tool]\<rparr>,
      mlb_writer_llama =
        \<lparr>llm = llm_llama70b,
         description = ''An experienced, honest, and industrious writer who does not make things up'',
         instructions =
           [join [CHR 0x0A]
            ['''',
             ''            Write a game recap article using the provided game information and stats.'',
             ''            Key instructions:'',
             ''            - Include things like final score, top performers and winning/losing pitcher.'',
             ''            - Use ONLY the provided data and DO NOT make up any information, such as specific innings when events occurred, that isn'' @ [CHR 0x27] @ ''t explicitly from the provided input.'',
             ''            - Do not print the box score'',
             ''        ''],
            ''Your recap from the stats should be at least 1000 words. Impress your readers!!!''],
         tools = []\<rparr>,
      mlb_writer_gemma =
        \<lparr>llm = llm_gemma2,
         description = ''An experienced and honest writer who does not make things up'',
         instructions =
           [''Write a detailed game recap article using the provided game information and stats''],
         tools = []\<rparr>,
      mlb_writer_mixtral =
        \<lparr>llm = llm_mixtral,
         description = ''An experienced and honest writer who does not make things up'',
         instructions =
           [''Write a detailed game recap article using the provided game information and stats''],
         tools = []\<rparr>,
      mlb_editor =
        \<lparr>llm = llm_llama70b,
         description = ''An experienced editor that excels at taking the best parts of multiple texts to create the best final product'',
         instructions = [''Edit recap articles to create the best final product.''],
         tools = []\<rparr>\<rparr>"

definition define_agents :: "date \<Rightarrow> error + notebook" where
  "define_agents today =
     (case minus_one_day today of
        Inl e \<Rightarrow> Inl e
      | Inr d \<Rightarrow> Inr (assistants_with d))"

section \<open>The pipeline cell\<close>

text \<open>
  \<^verbatim>\<open>Assistant.run(message, stream=False)\<close> belongs to the agent framework and calls a hosted
  model, which may call the assistant's tools. It is a parameter \<open>run\<close>: a function of the
  assistant, the message and the state of the outside world that returns the text or the
  exception it raised, and the next state of the world. The cell has no exception handler:
  an exception of any call ends the cell at once.
\<close>

type_synonym 'w run = "assistant \<Rightarrow> string \<Rightarrow> 'w \<Rightarrow> (error + string) \<times> 'w"

text \<open>The f-string \<^verbatim>\<open>stats\<close>.\<close>

definition stats_text :: "string \<Rightarrow> string \<Rightarrow> string" where
  "stats_text batting pitching =
     ''Statistical summaries for the game:'' @ [CHR 0x0A, CHR 0x0A] @ ''Batting stats:''
       @ [CHR 0x0A] @ batting @ [CHR 0x0A, CHR 0x0A] @ ''Pitching stats:'' @ [CHR 0x0A]
       @ pitching"

text \<open>
  The three writer calls and the list \<^verbatim>\<open>editor_inputs\<close> built from their results, in the
  order of the source.
\<close>

definition editor_inputs :: "'w run \<Rightarrow> notebook \<Rightarrow> string \<Rightarrow> 'w \<Rightarrow> (error + string list) \<times> 'w" where
  "editor_inputs run nb stats w0 =
     (case run (mlb_writer_llama nb) stats w0 of
        (Inl e, w1) \<Rightarrow> (Inl e, w1)
      | (Inr llama_writer, w1) \<Rightarrow>
     (case run (mlb_writer_gemma nb) stats w1 of
        (Inl e, w2) \<Rightarrow> (Inl e, w2)
      | (Inr gemma_writer, w2) \<Rightarrow>
     (case run (mlb_writer_mixtral nb) stats w2 of
        (Inl e, w3) \<Rightarrow> (Inl e, w3)
      | (Inr mixtral_writer, w3) \<Rightarrow>
          (Inr [llama_writer, gemma_writer, mixtral_writer], w3))))"

text \<open>The researcher and the two statisticians, and the text \<^verbatim>\<open>stats\<close> they lead to.\<close>

definition gather_stats :: "'w run \<Rightarrow> notebook \<Rightarrow> string \<Rightarrow> 'w \<Rightarrow> (error + string) \<times> 'w" where
  "gather_stats run nb user_prompt w0 =
     (case run (mlb_researcher nb) user_prompt w0 of
        (Inl e, w1) \<Rightarrow> (Inl e, w1)
      | (Inr game_information, w1) \<Rightarrow>
     (case run (mlb_batting_statistician nb) game_information w1 of
        (Inl e, w2) \<Rightarrow> (Inl e, w2)
      | (Inr batting, w2) \<Rightarrow>
     (case run (mlb_pitching_statistician nb) game_information w2 of
        (Inl e, w3) \<Rightarrow> (Inl e, w3)
      | (Inr pitching, w3) \<Rightarrow> (Inr (stats_text batting pitching), w3))))"

text \<open>The whole cell: its value is the text it prints.\<close>

definition pipeline :: "'w run \<Rightarrow> notebook \<Rightarrow> string \<Rightarrow> 'w \<Rightarrow> (error + string) \<times> 'w" where
  "pipeline run nb user_prompt w0 =
     (case gather_stats run nb user_prompt w0 of
        (Inl e, w1) \<Rightarrow> (Inl e, w1)
      | (Inr stats, w1) \<Rightarrow>
     (case editor_inputs run nb stats w1 of
        (Inl e, w2) \<Rightarrow> (Inl e, w2)
      | (Inr inputs, w2) \<Rightarrow> run (mlb_editor nb) (join [CHR 0x0A] inputs) w2))"

section \<open>What a pattern matches\<close>

text \<open>
  The set of texts a pattern matches in full, and the two notions the statements below
  compare: a pattern is plain when it has none of the characters that are special in a
  regular expression, and \<open>ci_substring frag s\<close> says that \<open>frag\<close> occurs in \<open>s\<close> once
  both are brought to lower case.
\<close>

definition conc :: "string set \<Rightarrow> string set \<Rightarrow> string set" where
  "conc A B = {u @ v | u v. u \<in> A \<and> v \<in> B}"

inductive_set star :: "string set \<Rightarrow> string set" for A :: "string set" where
  star_nil: "[] \<in> star A"
| star_app: "u \<in> A \<Longrightarrow> v \<in> star A \<Longrightarrow> u @ v \<in> star A"

fun lang :: "regex \<Rightarrow> string set" where
  "lang RNever = {}"
| "lang REps = {[]}"
| "lang (RLit d) = {[c] | c. py_lower c = py_lower d}"
| "lang RDot = {[c] | c. c \<noteq> CHR 0x0A}"
| "lang RAny = {[c] | c. True}"
| "lang (RSeq r s) = conc (lang r) (lang s)"
| "lang (RAlt r s) = lang r \<union> lang s"
| "lang (RStar r) = star (lang r)"

definition plain :: "string \<Rightarrow> bool" where
  "plain pat = (set pat \<inter> set ''.^$*+?{}[]|()'' = {} \<and> CHR 0x5C \<notin> set pat)"

definition ci_substring :: "string \<Rightarrow> string \<Rightarrow> bool" where
  "ci_substring frag s = sublist (map py_lower frag) (map py_lower s)"

section \<open>Sample data\<close>

text \<open>
  A statistics service that answers from a table of schedules by date and from a table of
  box scores by game, three schedule entries, one box score with a header row in each
  table and a batter without a player entry, and three behaviours of the
  model service: one that records every call, one whose model \<^verbatim>\<open>gemma2-9b-it\<close> is down, and
  one that fails at a given call.
\<close>

definition schedule_table :: "(string \<times> game list) list schedule_service" where
  "schedule_table u start_date end_date =
     (case map_of u start_date of None \<Rightarrow> Inr [] | Some gs \<Rightarrow> Inr gs)"

definition yankees_game :: game where
  "yankees_game =
     \<lparr>game_id = PInt 745804,
      summary = Some ''2024-07-14 - New York Yankees (5) @ Baltimore Orioles (6) (Final)'',
      home_name = PStr ''Baltimore Orioles'', home_score = PInt 6,
      away_name = PStr ''New York Yankees'', away_score = PInt 5,
      winning_team = PStr ''Baltimore Orioles'', series_status = PStr ''BAL wins 2-1''\<rparr>"

definition cubs_game :: game where
  "cubs_game =
     \<lparr>game_id = PInt 745643,
      summary = Some ''2024-07-14 - Chicago Cubs (8) @ St. Louis Cardinals (3) (Final)'',
      home_name = PStr ''St. Louis Cardinals'', home_score = PInt 3,
      away_name = PStr ''Chicago Cubs'', away_score = PInt 8,
      winning_team = PStr ''Chicago Cubs'', series_status = PStr ''CHC wins 3-1''\<rparr>"

definition mets_game :: game where
  "mets_game =
     \<lparr>game_id = PInt 746001,
      summary = Some ''2024-07-14 - Colorado Rockies (3) @ New York Mets (7) (Final)'',
      home_name = PStr ''New York Mets'', home_score = PInt 7,
      away_name = PStr ''Colorado Rockies'', away_score = PInt 3,
      winning_team = PStr ''New York Mets'', series_status = PStr ''NYM wins 2-1''\<rparr>"

definition box_line :: "string \<Rightarrow> (string \<times> pyval) list \<Rightarrow> box_row" where
  "box_line n kvs =
     \<lparr>name = n, cells = (\<lambda>c. case map_of kvs c of None \<Rightarrow> PStr [] | Some v \<Rightarrow> v)\<rparr>"

definition sample_box :: boxscore where
  "sample_box =
     \<lparr>playerInfo =
        [(''ID592450'', \<lparr>boxscoreName = ''Judge'', fullName = PStr ''Aaron Judge''\<rparr>),
         (''ID683002'', \<lparr>boxscoreName = ''Henderson, G'', fullName = PStr ''Gunnar Henderson''\<rparr>),
         (''ID607074'', \<lparr>boxscoreName = ''Rodon'', fullName = PStr ''Carlos Rodon''\<rparr>)],
      awayBatters =
        [box_line ''Yankees Batters'' [(''ab'', PStr ''AB'')],
         box_line ''Judge'' [(''ab'', PStr ''4''), (''h'', PStr ''2''), (''position'', PStr ''CF'')],
         box_line ''Soto'' [(''ab'', PStr ''4''), (''h'', PStr ''1''), (''position'', PStr ''RF'')]],
      homeBatters =
        [box_line ''Orioles Batters'' [(''ab'', PStr ''AB'')],
         box_line ''Henderson, G'' [(''ab'', PStr ''5''), (''h'', PStr ''1''), (''position'', PStr ''SS'')]],
      awayPitchers =
        [box_line ''Yankees Pitchers'' [(''ip'', PStr ''IP'')],
         box_line ''Rodon'' [(''ip'', PStr ''4.0''), (''k'', PStr ''7'')]],
      homePitchers =
        [box_line ''Orioles Pitchers'' [(''ip'', PStr ''IP'')]],
      teamInfo = \<lparr>away = \<lparr>teamName = PStr ''Yankees''\<rparr>, home = \<lparr>teamName = PStr ''Orioles''\<rparr>\<rparr>\<rparr>"

definition boxscore_table :: "(string \<times> boxscore) list boxscore_service" where
  "boxscore_table u gid =
     (case map_of u gid of None \<Rightarrow> Inl (ServiceFault ''404 Not Found'') | Some b \<Rightarrow> Inr b)"

definition logging_run :: "(date \<times> assistant list) run" where
  "logging_run a msg w = (Inr (llm a), (fst w, snd w @ [a]))"

definition gemma_down_run :: "nat run" where
  "gemma_down_run a msg n =
     (if llm a = llm_gemma2 then (Inl (ServiceFault ''503 Service Unavailable''), Suc n)
      else (Inr (llm a), Suc n))"

definition failing_at_run :: "nat \<Rightarrow> string list run" where
  "failing_at_run k a msg calls =
     (if length calls = k then (Inl (ServiceFault ''429 Too Many Requests''), calls @ [llm a])
      else (Inr (llm a), calls @ [llm a]))"

section \<open>Evaluation rules\<close>

lemmas select_eval = matching_games_def str_contains_def re_compile_def seq_of_def
  close_frame_def re_search_def fullmatch_def py_lower_def boolean_index_def repeat_of_def
  is_ascii_alnum_def

lemmas game_eval = get_game_info_def game_info_def first_def schedule_table_def

lemmas box_eval = batting_stats_def pitching_stats_def batters_box_df_def pitchers_box_df_def
  merge_def concat_frames_def set_team_name_def iloc_from_1_def DataFrame_def
  player_info_df_def to_records_def cell_def sample_box_def box_line_def Let_def

lemmas json_eval = dumps_records_def dumps_dict_def json_string_def json_escape_def str_int_def

lemmas pipe_eval = pipeline_def gather_stats_def editor_inputs_def assistants_with_def
  llm_mixtral_def llm_gemma2_def llm_llama70b_def

lemmas date_eval = define_agents_def minus_one_day_def days_in_month_def is_leap_def
  parse_instruction_def isoformat_def zero_pad_def

section \<open>The matcher agrees with the set of texts of a pattern\<close>

lemma nullable_iff: "nullable r \<longleftrightarrow> [] \<in> lang r"
  by (induction r) (auto simp: conc_def intro: star.intros)

lemma star_cons_iff:
  "c # w \<in> star A \<longleftrightarrow> (\<exists>u v. w = u @ v \<and> c # u \<in> A \<and> v \<in> star A)"
proof
  assume "c # w \<in> star A"
  then show "\<exists>u v. w = u @ v \<and> c # u \<in> A \<and> v \<in> star A"
  proof (induction "c # w" rule: star.induct)
    case (star_app u v)
    show ?case
    proof (cases u)
      case Nil
      with star_app show ?thesis by simp
    next
      case (Cons a u')
      with star_app show ?thesis by auto
    qed
  qed
next
  assume "\<exists>u v. w = u @ v \<and> c # u \<in> A \<and> v \<in> star A"
  then obtain u v where "w = u @ v" "c # u \<in> A" "v \<in> star A" by blast
  then have "(c # u) @ v \<in> star A" by (intro star.star_app)
  with \<open>w = u @ v\<close> show "c # w \<in> star A" by simp
qed

lemma conc_cons_iff:
  "c # w \<in> conc A B \<longleftrightarrow> (\<exists>u v. w = u @ v \<and> c # u \<in> A \<and> v \<in> B) \<or> ([] \<in> A \<and> c # w \<in> B)"
  by (auto simp: conc_def Cons_eq_append_conv) 

lemma lang_deriv: "w \<in> lang (deriv c r) \<longleftrightarrow> c # w \<in> lang r"
proof (induction r arbitrary: w)
  case (RSeq r s)
  then show ?case by (auto simp: conc_cons_iff nullable_iff) (auto simp: conc_def)
next
  case (RStar r)
  then show ?case by (auto simp: star_cons_iff) (auto simp: conc_def)
qed auto

lemma fullmatch_iff: "fullmatch r s \<longleftrightarrow> s \<in> lang r"
  unfolding fullmatch_def
  by (induction s arbitrary: r) (simp_all add: nullable_iff lang_deriv)

lemma star_any: "w \<in> star (lang RAny)"
proof (induction w)
  case Nil show ?case by (rule star.star_nil)
next
  case (Cons c w)
  have "[c] \<in> lang RAny" by simp
  from star.star_app[OF this Cons] show ?case by simp
qed

lemma re_search_iff: "re_search r s \<longleftrightarrow> (\<exists>u w v. s = u @ w @ v \<and> w \<in> lang r)"
proof -
  have "re_search r s \<longleftrightarrow> s \<in> conc (star (lang RAny)) (conc (lang r) (star (lang RAny)))"
    by (simp add: re_search_def fullmatch_iff)
  also have "\<dots> \<longleftrightarrow> (\<exists>u w v. s = u @ w @ v \<and> w \<in> lang r)"
    unfolding conc_def using star_any by blast
  finally show ?thesis .
qed

lemma parse_re_plain:
  "plain p \<Longrightarrow> parse_re p stack (alts, items) =
     parse_re [] stack (alts, rev (map (\<lambda>c. (RLit c, False)) p) @ items)"
proof (induction p arbitrary: items)
  case Nil
  then show ?case by simp
next
  case (Cons c p)
  from Cons.prems have p: "plain p" and c: "c \<notin> set ''.^$*+?{}[]|()''" "c \<noteq> CHR 0x5C"
    by (auto simp: plain_def)
  from c have "parse_re (c # p) stack (alts, items) = parse_re p stack (alts, (RLit c, False) # items)"
    by simp
  with Cons.IH[OF p] show ?case by simp
qed

lemma lang_lits: "lang (foldr RSeq (map RLit p) REps) = {w. map py_lower w = map py_lower p}"
proof (induction p)
  case Nil
  then show ?case by simp
next
  case (Cons c p)
  have "w \<in> conc (lang (RLit c)) {w. map py_lower w = map py_lower p}
          \<longleftrightarrow> map py_lower w = map py_lower (c # p)" for w
  proof
    assume "w \<in> conc (lang (RLit c)) {w. map py_lower w = map py_lower p}"
    then show "map py_lower w = map py_lower (c # p)" by (auto simp: conc_def)
  next
    assume "map py_lower w = map py_lower (c # p)"
    then obtain z zs where w: "w = z # zs" and z: "py_lower z = py_lower c"
      and zs: "map py_lower zs = map py_lower p"
      by (auto simp: map_eq_Cons_conv)
    have "[z] \<in> lang (RLit c)" using z by simp
    moreover have "zs \<in> {w. map py_lower w = map py_lower p}" using zs by simp
    ultimately have "[z] @ zs \<in> conc (lang (RLit c)) {w. map py_lower w = map py_lower p}"
      unfolding conc_def by blast
    with w show "w \<in> conc (lang (RLit c)) {w. map py_lower w = map py_lower p}" by simp
  qed
  with Cons show ?case by auto
qed

lemma re_compile_plain:
  assumes "plain p"
  shows "re_compile p = Compiled (RAlt (foldr RSeq (map RLit p) REps) RNever)"
  using parse_re_plain[OF assms, of "[]" "[]" "[]"]
  by (simp add: re_compile_def close_frame_def seq_of_def rev_map comp_def)

lemma map_eq_appendD:
  "map f xs = ys @ zs \<Longrightarrow> \<exists>us vs. xs = us @ vs \<and> map f us = ys \<and> map f vs = zs"
  by (auto simp: map_eq_append_conv)

lemma re_search_plain:
  "re_search (RAlt (foldr RSeq (map RLit p) REps) RNever) s \<longleftrightarrow> ci_substring p s"
proof -
  have "re_search (RAlt (foldr RSeq (map RLit p) REps) RNever) s \<longleftrightarrow>
        (\<exists>u w v. s = u @ w @ v \<and> map py_lower w = map py_lower p)"
    by (simp add: re_search_iff lang_lits)
  also have "\<dots> \<longleftrightarrow> (\<exists>ps ss. map py_lower s = ps @ map py_lower p @ ss)"
  proof
    assume "\<exists>u w v. s = u @ w @ v \<and> map py_lower w = map py_lower p"
    then obtain u w v where "s = u @ w @ v" "map py_lower w = map py_lower p" by blast
    then have "map py_lower s = map py_lower u @ map py_lower p @ map py_lower v" by simp
    then show "\<exists>ps ss. map py_lower s = ps @ map py_lower p @ ss" by blast
  next
    assume "\<exists>ps ss. map py_lower s = ps @ map py_lower p @ ss"
    then obtain ps ss where "map py_lower s = ps @ map py_lower p @ ss" by blast
    then obtain u r where s: "s = u @ r" and r: "map py_lower r = map py_lower p @ ss"
      using map_eq_appendD by blast
    from r obtain w v where "r = w @ v" "map py_lower w = map py_lower p"
      using map_eq_appendD by blast
    with s show "\<exists>u w v. s = u @ w @ v \<and> map py_lower w = map py_lower p" by blast
  qed
  finally show ?thesis by (simp add: ci_substring_def sublist_def)
qed

lemma boolean_index_map: "boolean_index xs (map f xs) = filter f xs"
  by (induction xs) (simp_all add: boolean_index_def)

lemma str_contains_plain:
  assumes "plain pat"
  shows "str_contains col pat =
           Inr (map (\<lambda>x. case x of None \<Rightarrow> False | Some s \<Rightarrow> ci_substring pat s) col)"
  by (simp add: str_contains_def re_compile_plain[OF assms] re_search_plain cong: option.case_cong)

section \<open>Selecting schedule entries\<close>

text \<open>
  C7, as stated, fails: the team name is compiled as a regular expression. With the team
  name \<^verbatim>\<open>Sox|Cubs\<close> the entry of the Cubs game is selected, although the text \<^verbatim>\<open>Sox|Cubs\<close>
  occurs nowhere in its summary.
\<close>

theorem regex_alternative_selected_counterexample:
  "matching_games [cubs_game] ''Sox|Cubs'' = Inr [cubs_game] \<and>
   summary cubs_game = Some ''2024-07-14 - Chicago Cubs (8) @ St. Louis Cardinals (3) (Final)'' \<and>
   \<not> ci_substring ''Sox|Cubs'' ''2024-07-14 - Chicago Cubs (8) @ St. Louis Cardinals (3) (Final)''"
  by (simp add: select_eval cubs_game_def ci_substring_def sublist_code(3))

text \<open>
  C7 (amended): on text whose code points are all below 256, the team-name fragment and
  the summaries alike, for every non-empty schedule listing and every fragment without a
  character that is special in a regular expression, \<^verbatim>\<open>get_game_info\<close> selects exactly
  the entries whose summary is present and contains the fragment as a case-insensitive
  substring, in the order of the listing. The restriction is that of the type
  \<^typ>\<open>string\<close>: beyond these code points \<^verbatim>\<open>re.IGNORECASE\<close> identifies further characters
  (the dotless i with i, the long s with s) that lower-casing keeps apart, and the
  statement is not made there.
\<close>

theorem matching_games_plain:
  assumes "plain team_name" and "sched \<noteq> []"
  shows "matching_games sched team_name =
           Inr (filter (\<lambda>g. case summary g of None \<Rightarrow> False
                              | Some s \<Rightarrow> ci_substring team_name s) sched)"
proof -
  have "boolean_index sched
          (map (\<lambda>x. case x of None \<Rightarrow> False | Some s \<Rightarrow> ci_substring team_name s)
               (map summary sched))
        = filter (\<lambda>g. case summary g of None \<Rightarrow> False | Some s \<Rightarrow> ci_substring team_name s) sched"
    using boolean_index_map[of sched
        "\<lambda>g. case summary g of None \<Rightarrow> False | Some s \<Rightarrow> ci_substring team_name s"]
    by (simp add: comp_def)
  with assms show ?thesis
    by (simp add: matching_games_def str_contains_plain)
qed

theorem matching_games_plain_witness:
  "plain ''yankees'' \<and> [cubs_game, yankees_game] \<noteq> [] \<and>
   matching_games [cubs_game, yankees_game] ''yankees'' = Inr [yankees_game]"
proof -
  have p: "plain ''yankees''" by (simp add: plain_def)
  have n: "[cubs_game, yankees_game] \<noteq> []" by simp
  have "\<not> ci_substring ''yankees''
            ''2024-07-14 - Chicago Cubs (8) @ St. Louis Cardinals (3) (Final)''"
    by (simp add: ci_substring_def py_lower_def sublist_code(3))
  moreover have "ci_substring ''yankees''
            ''2024-07-14 - New York Yankees (5) @ Baltimore Orioles (6) (Final)''"
    by (simp add: ci_substring_def py_lower_def sublist_code(3))
  ultimately show ?thesis
    using p matching_games_plain[OF p n] by (simp add: cubs_game_def yankees_game_def)
qed

text \<open>
  C10: \<^verbatim>\<open>get_game_info\<close> reads the team name as a regular expression. The team name
  \<^verbatim>\<open>Yankees (5)\<close> occurs literally in the summary of the Yankees game, yet the entry is not
  selected, because the parentheses are a group; the team name \<^verbatim>\<open>N.w\<close> selects the entry
  although that text does not occur in the summary, because the dot stands for any
  character; and the team name \<^verbatim>\<open>Yankees (5\<close> is an invalid pattern, on which the call fails.
\<close>

theorem team_name_is_a_pattern:
  "matching_games [yankees_game] ''Yankees (5)'' = Inr [] \<and>
   summary yankees_game = Some ''2024-07-14 - New York Yankees (5) @ Baltimore Orioles (6) (Final)'' \<and>
   ci_substring ''Yankees (5)'' ''2024-07-14 - New York Yankees (5) @ Baltimore Orioles (6) (Final)'' \<and>
   matching_games [yankees_game] ''N.w'' = Inr [yankees_game] \<and>
   \<not> ci_substring ''N.w'' ''2024-07-14 - New York Yankees (5) @ Baltimore Orioles (6) (Final)'' \<and>
   get_game_info schedule_table [(''2024-07-14'', [yankees_game])] ''2024-07-14'' ''Yankees (5''
     = Inl ReError"
  by (simp add: select_eval game_eval yankees_game_def ci_substring_def sublist_code(3))

section \<open>The result of \<^verbatim>\<open>get_game_info\<close>\<close>

text \<open>
  C3, as stated, fails: the code has no error of its own for a query without a match. On a
  schedule with two games, neither of them of the Dodgers, the call ends with the
  IndexError of \<^verbatim>\<open>tolist()[0]\<close>.
\<close>

theorem no_match_is_index_error_counterexample:
  "get_game_info schedule_table [(''2024-07-14'', [cubs_game, yankees_game])]
       ''2024-07-14'' ''Dodgers''
     = Inl IndexError"
  by (simp add: select_eval game_eval cubs_game_def yankees_game_def)

text \<open>
  C3 (amended): for every date/team query for which no schedule entry matches the
  team-name pattern, \<^verbatim>\<open>get_game_info\<close> fails: with Python's IndexError when the schedule of
  the date has entries, and with KeyError when it has none.
\<close>

theorem get_game_info_no_match:
  assumes "schedule u game_date game_date = Inr sched"
      and "str_contains (map summary sched) team_name = Inr sel"
      and "boolean_index sched sel = []"
  shows "get_game_info schedule u game_date team_name =
           Inl (if sched = [] then KeyError else IndexError)"
  using assms by (simp add: get_game_info_def matching_games_def game_info_def first_def)

theorem get_game_info_no_match_witness:
  "schedule_table [(''2024-07-14'', [cubs_game])] ''2024-07-14'' ''2024-07-14'' = Inr [cubs_game] \<and>
   str_contains (map summary [cubs_game]) ''Mets'' = Inr [False] \<and>
   boolean_index [cubs_game] [False] = [] \<and>
   get_game_info schedule_table [(''2024-07-14'', [cubs_game])] ''2024-07-14'' ''Mets''
     = Inl IndexError"
proof -
  have a: "schedule_table [(''2024-07-14'', [cubs_game])] ''2024-07-14'' ''2024-07-14''
             = Inr [cubs_game]"
    by (simp add: schedule_table_def)
  have b: "str_contains (map summary [cubs_game]) ''Mets'' = Inr [False]"
    by (simp add: select_eval cubs_game_def)
  have c: "boolean_index [cubs_game] [False] = []"
    by (simp add: boolean_index_def)
  from get_game_info_no_match[where schedule = schedule_table
      and u = "[(''2024-07-14'', [cubs_game])]" and game_date = "''2024-07-14''", OF a b c] a b c
  show ?thesis by simp
qed

lemma boolean_index_first:
  "boolean_index xs sel = g # rest \<Longrightarrow>
     \<exists>pre post. xs = pre @ g # post \<and> boolean_index pre sel = []"
proof (induction xs arbitrary: sel)
  case Nil
  then show ?case by (simp add: boolean_index_def)
next
  case (Cons x xs)
  show ?case
  proof (cases sel)
    case Nil
    with Cons.prems show ?thesis by (simp add: boolean_index_def)
  next
    case (Cons b bs)
    show ?thesis
    proof (cases b)
      case True
      with Cons.prems \<open>sel = b # bs\<close> have "x = g" by (simp add: boolean_index_def)
      then have "x # xs = [] @ g # xs \<and> boolean_index [] sel = []"
        by (simp add: boolean_index_def)
      then show ?thesis by blast
    next
      case False
      with Cons.prems \<open>sel = b # bs\<close> have "boolean_index xs bs = g # rest"
        by (simp add: boolean_index_def)
      from Cons.IH[OF this] obtain pre post
        where "xs = pre @ g # post" "boolean_index pre bs = []" by blast
      with False \<open>sel = b # bs\<close>
      have "x # xs = (x # pre) @ g # post \<and> boolean_index (x # pre) sel = []"
        by (simp add: boolean_index_def)
      then show ?thesis by blast
    qed
  qed
qed

text \<open>
  C4: for every date/team query whose team-name pattern matches more than one schedule
  entry, \<^verbatim>\<open>get_game_info\<close> succeeds and every field of the document it returns (game id,
  teams, scores, winner, series status) is the field of the first row of the filtered
  schedule, which is the first entry of the schedule that the pattern selects.
\<close>

theorem get_game_info_first_match:
  assumes "schedule u game_date game_date = Inr sched"
      and "matching_games sched team_name = Inr (g # g' # gs)"
  shows "get_game_info schedule u game_date team_name =
           Inr (dumps_dict
                  [(''game_id'', PStr (py_str (game_id g))),
                   (''home_team'', home_name g),
                   (''home_score'', home_score g),
                   (''away_team'', away_name g),
                   (''away_score'', away_score g),
                   (''winning_team'', winning_team g),
                   (''series_status'', series_status g)]) \<and>
         (\<exists>sel pre post. str_contains (map summary sched) team_name = Inr sel \<and>
                         sched = pre @ g # post \<and> boolean_index pre sel = [])"
proof
  from assms show "get_game_info schedule u game_date team_name =
           Inr (dumps_dict
                  [(''game_id'', PStr (py_str (game_id g))),
                   (''home_team'', home_name g),
                   (''home_score'', home_score g),
                   (''away_team'', away_name g),
                   (''away_score'', away_score g),
                   (''winning_team'', winning_team g),
                   (''series_status'', series_status g)])"
    by (simp add: get_game_info_def game_info_def first_def)
next
  from assms(2) obtain sel where sel: "str_contains (map summary sched) team_name = Inr sel"
    and bi: "boolean_index sched sel = g # g' # gs"
    by (auto simp: matching_games_def split: if_splits sum.splits)
  from boolean_index_first[OF bi] sel
  show "\<exists>sel pre post. str_contains (map summary sched) team_name = Inr sel \<and>
                        sched = pre @ g # post \<and> boolean_index pre sel = []"
    by blast
qed

theorem get_game_info_first_match_witness:
  "schedule_table [(''2024-07-14'', [cubs_game, yankees_game, mets_game])]
       ''2024-07-14'' ''2024-07-14''
     = Inr [cubs_game, yankees_game, mets_game] \<and>
   matching_games [cubs_game, yankees_game, mets_game] ''new york''
     = Inr [yankees_game, mets_game] \<and>
   get_game_info schedule_table [(''2024-07-14'', [cubs_game, yankees_game, mets_game])]
       ''2024-07-14'' ''new york''
     = Inr (''{\"game_id\": \"745804\", \"home_team\": \"Baltimore Orioles\", \"home_score\": 6, ''
            @ ''\"away_team\": \"New York Yankees\", \"away_score\": 5, ''
            @ ''\"winning_team\": \"Baltimore Orioles\", \"series_status\": \"BAL wins 2-1\"}'')"
proof -
  have a: "schedule_table [(''2024-07-14'', [cubs_game, yankees_game, mets_game])]
             ''2024-07-14'' ''2024-07-14''
           = Inr [cubs_game, yankees_game, mets_game]"
    by (simp add: schedule_table_def)
  have b: "matching_games [cubs_game, yankees_game, mets_game] ''new york''
             = Inr [yankees_game, mets_game]"
    by (simp add: select_eval cubs_game_def yankees_game_def mets_game_def)
  note t = get_game_info_first_match[where schedule = schedule_table
      and u = "[(''2024-07-14'', [cubs_game, yankees_game, mets_game])]"
      and game_date = "''2024-07-14''", OF a b]
  from t[THEN conjunct1] a b show ?thesis
    by (simp add: yankees_game_def json_eval)
qed



section \<open>The box score tools\<close>

lemma merge_mem:
  assumes "merge left right = Inr df"
  shows "m \<in> set df \<longleftrightarrow>
           fst m \<in> set (snd left) \<and> snd m \<in> set (snd right) \<and>
           name (snd (fst m)) = boxscoreName (snd m)"
proof -
  from assms have df: "df = concat (map (\<lambda>l. map (Pair l)
      (filter (\<lambda>p. name (snd l) = boxscoreName p) (snd right))) (snd left))"
    by (simp add: merge_def split: if_splits)
  obtain l p where m: "m = (l, p)" by (cases m)
  show ?thesis unfolding df m by auto
qed

lemma batters_rows:
  assumes "batters_box_df b = Inr df" and "m \<in> set df"
  shows "(fst (fst m) = teamName (away (teamInfo b)) \<and> snd (fst m) \<in> set (drop 1 (awayBatters b))
          \<or> fst (fst m) = teamName (home (teamInfo b)) \<and> snd (fst m) \<in> set (drop 1 (homeBatters b)))
         \<and> snd m \<in> snd ` set (playerInfo b) \<and> name (snd (fst m)) = boxscoreName (snd m)"
proof -
  from assms(1) have "merge
     (concat_frames
        (set_team_name (teamName (away (teamInfo b))) (iloc_from_1 (DataFrame (awayBatters b))))
        (set_team_name (teamName (home (teamInfo b))) (iloc_from_1 (DataFrame (homeBatters b)))))
     (player_info_df b) = Inr df"
    by (simp add: batters_box_df_def Let_def)
  from merge_mem[OF this, of m] assms(2) show ?thesis
    by (auto simp: concat_frames_def set_team_name_def iloc_from_1_def DataFrame_def player_info_df_def)
qed

lemma pitchers_rows:
  assumes "pitchers_box_df b = Inr df" and "m \<in> set df"
  shows "(fst (fst m) = teamName (away (teamInfo b)) \<and> snd (fst m) \<in> set (drop 1 (awayPitchers b))
          \<or> fst (fst m) = teamName (home (teamInfo b)) \<and> snd (fst m) \<in> set (drop 1 (homePitchers b)))
         \<and> snd m \<in> snd ` set (playerInfo b) \<and> name (snd (fst m)) = boxscoreName (snd m)"
proof -
  from assms(1) have "merge
     (concat_frames
        (set_team_name (teamName (away (teamInfo b))) (iloc_from_1 (DataFrame (awayPitchers b))))
        (set_team_name (teamName (home (teamInfo b))) (iloc_from_1 (DataFrame (homePitchers b)))))
     (player_info_df b) = Inr df"
    by (simp add: pitchers_box_df_def Let_def)
  from merge_mem[OF this, of m] assms(2) show ?thesis
    by (auto simp: concat_frames_def set_team_name_def iloc_from_1_def DataFrame_def player_info_df_def)
qed







lemma get_batting_stats_Inr:
  assumes "boxscore_data u gid = Inr b"
  shows "get_batting_stats boxscore_data u gid = Inr out \<longleftrightarrow>
           (\<exists>df. batters_box_df b = Inr df \<and>
                 out = dumps_records
                         (to_records [''team_name'', ''fullName'', ''position'', ''ab'', ''r'', ''h'',
                                      ''hr'', ''rbi'', ''bb'', ''sb''] df))"
  using assms by (auto simp: get_batting_stats_def batting_stats_def split: sum.splits)

lemma get_pitching_stats_Inr:
  assumes "boxscore_data u gid = Inr b"
  shows "get_pitching_stats boxscore_data u gid = Inr out \<longleftrightarrow>
           (\<exists>df. pitchers_box_df b = Inr df \<and>
                 out = dumps_records
                         (to_records [''team_name'', ''fullName'', ''ip'', ''h'', ''r'', ''er'', ''bb'',
                                      ''k'', ''note''] df))"
  using assms by (auto simp: get_pitching_stats_def pitching_stats_def split: sum.splits)



text \<open>
  C9: for every box score, the output of \<^verbatim>\<open>get_batting_stats\<close> and of \<^verbatim>\<open>get_pitching_stats\<close>
  is the JSON text of the records of the joined rows, and every joined row is a row after
  the first of the away table, with the away team's name, or a row after the first of the
  home table, with the home team's name. So a table of one side with at most one row
  contributes no record: every record then comes from the other side.
\<close>

theorem first_rows_excluded:
  assumes "boxscore_data u gid = Inr b"
  shows
  "(batters_box_df b = Inr df \<longrightarrow>
      get_batting_stats boxscore_data u gid =
        Inr (dumps_records
               (to_records [''team_name'', ''fullName'', ''position'', ''ab'', ''r'', ''h'',
                            ''hr'', ''rbi'', ''bb'', ''sb''] df)) \<and>
      (\<forall>m \<in> set df.
          fst (fst m) = teamName (away (teamInfo b)) \<and> snd (fst m) \<in> set (drop 1 (awayBatters b)) \<or>
          fst (fst m) = teamName (home (teamInfo b)) \<and> snd (fst m) \<in> set (drop 1 (homeBatters b))) \<and>
      (length (awayBatters b) \<le> 1 \<longrightarrow>
         (\<forall>m \<in> set df. fst (fst m) = teamName (home (teamInfo b)) \<and>
                         snd (fst m) \<in> set (drop 1 (homeBatters b)))) \<and>
      (length (homeBatters b) \<le> 1 \<longrightarrow>
         (\<forall>m \<in> set df. fst (fst m) = teamName (away (teamInfo b)) \<and>
                         snd (fst m) \<in> set (drop 1 (awayBatters b))))) \<and>
   (pitchers_box_df b = Inr df' \<longrightarrow>
      get_pitching_stats boxscore_data u gid =
        Inr (dumps_records
               (to_records [''team_name'', ''fullName'', ''ip'', ''h'', ''r'', ''er'', ''bb'',
                            ''k'', ''note''] df')) \<and>
      (\<forall>m \<in> set df'.
          fst (fst m) = teamName (away (teamInfo b)) \<and> snd (fst m) \<in> set (drop 1 (awayPitchers b)) \<or>
          fst (fst m) = teamName (home (teamInfo b)) \<and> snd (fst m) \<in> set (drop 1 (homePitchers b))) \<and>
      (length (awayPitchers b) \<le> 1 \<longrightarrow>
         (\<forall>m \<in> set df'. fst (fst m) = teamName (home (teamInfo b)) \<and>
                          snd (fst m) \<in> set (drop 1 (homePitchers b)))) \<and>
      (length (homePitchers b) \<le> 1 \<longrightarrow>
         (\<forall>m \<in> set df'. fst (fst m) = teamName (away (teamInfo b)) \<and>
                          snd (fst m) \<in> set (drop 1 (awayPitchers b)))))"
proof -
  have short: "length xs \<le> 1 \<Longrightarrow> set (drop 1 xs) = {}" for xs :: "box_row list"
    by simp
  show ?thesis
  proof (intro conjI impI ballI)
    assume "batters_box_df b = Inr df"
    then show "get_batting_stats boxscore_data u gid =
        Inr (dumps_records
               (to_records [''team_name'', ''fullName'', ''position'', ''ab'', ''r'', ''h'',
                            ''hr'', ''rbi'', ''bb'', ''sb''] df))"
      using get_batting_stats_Inr[where boxscore_data = boxscore_data and u = u and gid = gid, OF assms] by blast
  next
    assume "pitchers_box_df b = Inr df'"
    then show "get_pitching_stats boxscore_data u gid =
        Inr (dumps_records
               (to_records [''team_name'', ''fullName'', ''ip'', ''h'', ''r'', ''er'', ''bb'',
                            ''k'', ''note''] df'))"
      using get_pitching_stats_Inr[where boxscore_data = boxscore_data and u = u and gid = gid, OF assms] by blast
  next
    fix m assume "batters_box_df b = Inr df" "m \<in> set df"
    from batters_rows[OF this]
    show "fst (fst m) = teamName (away (teamInfo b)) \<and> snd (fst m) \<in> set (drop 1 (awayBatters b)) \<or>
          fst (fst m) = teamName (home (teamInfo b)) \<and> snd (fst m) \<in> set (drop 1 (homeBatters b))"
      by blast
  next
    fix m assume "batters_box_df b = Inr df" "length (awayBatters b) \<le> 1" "m \<in> set df"
    from batters_rows[OF this(1,3)] short[OF this(2)]
    show "fst (fst m) = teamName (home (teamInfo b))" "snd (fst m) \<in> set (drop 1 (homeBatters b))"
      by auto
  next
    fix m assume "batters_box_df b = Inr df" "length (homeBatters b) \<le> 1" "m \<in> set df"
    from batters_rows[OF this(1,3)] short[OF this(2)]
    show "fst (fst m) = teamName (away (teamInfo b))" "snd (fst m) \<in> set (drop 1 (awayBatters b))"
      by auto
  next
    fix m assume "pitchers_box_df b = Inr df'" "m \<in> set df'"
    from pitchers_rows[OF this]
    show "fst (fst m) = teamName (away (teamInfo b)) \<and> snd (fst m) \<in> set (drop 1 (awayPitchers b)) \<or>
          fst (fst m) = teamName (home (teamInfo b)) \<and> snd (fst m) \<in> set (drop 1 (homePitchers b))"
      by blast
  next
    fix m assume "pitchers_box_df b = Inr df'" "length (awayPitchers b) \<le> 1" "m \<in> set df'"
    from pitchers_rows[OF this(1,3)] short[OF this(2)]
    show "fst (fst m) = teamName (home (teamInfo b))" "snd (fst m) \<in> set (drop 1 (homePitchers b))"
      by auto
  next
    fix m assume "pitchers_box_df b = Inr df'" "length (homePitchers b) \<le> 1" "m \<in> set df'"
    from pitchers_rows[OF this(1,3)] short[OF this(2)]
    show "fst (fst m) = teamName (away (teamInfo b))" "snd (fst m) \<in> set (drop 1 (awayPitchers b))"
      by auto
  qed
qed

theorem first_rows_excluded_witness:
  "boxscore_table [(''745804'', sample_box)] ''745804'' = Inr sample_box \<and>
   batters_box_df sample_box =
     Inr [((PStr ''Yankees'', awayBatters sample_box ! 1), snd (playerInfo sample_box ! 0)),
          ((PStr ''Orioles'', homeBatters sample_box ! 1), snd (playerInfo sample_box ! 1))] \<and>
   pitchers_box_df sample_box =
     Inr [((PStr ''Yankees'', awayPitchers sample_box ! 1), snd (playerInfo sample_box ! 2))] \<and>
   length (homePitchers sample_box) \<le> 1 \<and>
   PStr ''Yankees'' = teamName (away (teamInfo sample_box)) \<and>
   awayPitchers sample_box ! 1 \<in> set (drop 1 (awayPitchers sample_box))"
proof -
  let ?df = "[((PStr ''Yankees'', awayBatters sample_box ! 1), snd (playerInfo sample_box ! 0)),
          ((PStr ''Orioles'', homeBatters sample_box ! 1), snd (playerInfo sample_box ! 1))]"
  let ?df' = "[((PStr ''Yankees'', awayPitchers sample_box ! 1), snd (playerInfo sample_box ! 2))]"
  have s: "boxscore_table [(''745804'', sample_box)] ''745804'' = Inr sample_box"
    by (simp add: boxscore_table_def)
  have a: "batters_box_df sample_box = Inr ?df" by (simp add: box_eval)
  have b: "pitchers_box_df sample_box = Inr ?df'" by (simp add: box_eval)
  have c: "length (homePitchers sample_box) \<le> 1" by (simp add: sample_box_def)
  from first_rows_excluded[where boxscore_data = boxscore_table
      and u = "[(''745804'', sample_box)]" and gid = "''745804''", OF s, of ?df ?df'] b c
  have "\<forall>m \<in> set ?df'. fst (fst m) = teamName (away (teamInfo sample_box)) \<and>
                          snd (fst m) \<in> set (drop 1 (awayPitchers sample_box))"
    by blast
  then have "PStr ''Yankees'' = teamName (away (teamInfo sample_box)) \<and>
             awayPitchers sample_box ! 1 \<in> set (drop 1 (awayPitchers sample_box))"
    by simp
  with s a b c show ?thesis by blast
qed

section \<open>The writers and the editor\<close>

text \<open>
  C1, as stated, fails: when a writer's call fails, no sequence reaches the editor. With
  the model of the second writer down, the first two writers are called (the world counts
  two calls), the third is not, and the writer stage ends with the failure instead of a
  list.
\<close>

theorem gemma_down_no_inputs_counterexample:
  "editor_inputs gemma_down_run (assistants_with \<lparr>year = 2024, month = 7, day = 14\<rparr>)
       ''Statistical summaries for the game'' 0
     = (Inl (ServiceFault ''503 Service Unavailable''), 2)"
  by (simp add: pipe_eval gemma_down_run_def)

text \<open>
  C1 (amended): for every run of the writer stage in which the calls of the three writers
  return, the sequence handed to the editor has length exactly 3 and its order is the
  declaration order of the writers (llama, gemma, mixtral): its entries are the results
  of the three calls, made in that order, and the editor receives their join.
\<close>

theorem editor_inputs_declaration_order:
  assumes "gather_stats run nb user_prompt w0 = (Inr stats, w1)"
      and "editor_inputs run nb stats w1 = (Inr rs, w4)"
  shows "\<exists>a b c w2 w3.
           run (mlb_writer_llama nb) stats w1 = (Inr a, w2) \<and>
           run (mlb_writer_gemma nb) stats w2 = (Inr b, w3) \<and>
           run (mlb_writer_mixtral nb) stats w3 = (Inr c, w4) \<and>
           rs = [a, b, c] \<and> length rs = 3 \<and>
           pipeline run nb user_prompt w0 = run (mlb_editor nb) (join [CHR 0x0A] [a, b, c]) w4"
  using assms
  by (auto simp: editor_inputs_def pipeline_def split: prod.splits sum.splits)

theorem editor_inputs_declaration_order_witness:
  "gather_stats (failing_at_run 7) (assistants_with \<lparr>year = 2024, month = 7, day = 14\<rparr>)
       ''write a recap of the Yankees game on July 14, 2024'' []
     = (Inr (stats_text ''mixtral-8x7b-32768'' ''mixtral-8x7b-32768''),
        [''mixtral-8x7b-32768'', ''mixtral-8x7b-32768'', ''mixtral-8x7b-32768'']) \<and>
   editor_inputs (failing_at_run 7) (assistants_with \<lparr>year = 2024, month = 7, day = 14\<rparr>)
       (stats_text ''mixtral-8x7b-32768'' ''mixtral-8x7b-32768'')
       [''mixtral-8x7b-32768'', ''mixtral-8x7b-32768'', ''mixtral-8x7b-32768'']
     = (Inr [''llama3-70b-8192'', ''gemma2-9b-it'', ''mixtral-8x7b-32768''],
        [''mixtral-8x7b-32768'', ''mixtral-8x7b-32768'', ''mixtral-8x7b-32768'',
         ''llama3-70b-8192'', ''gemma2-9b-it'', ''mixtral-8x7b-32768'']) \<and>
   length [''llama3-70b-8192'', ''gemma2-9b-it'', ''mixtral-8x7b-32768''] = 3"
proof -
  let ?nb = "assistants_with \<lparr>year = 2024, month = 7, day = 14\<rparr>"
  let ?st = "stats_text ''mixtral-8x7b-32768'' ''mixtral-8x7b-32768''"
  let ?w1 = "[''mixtral-8x7b-32768'', ''mixtral-8x7b-32768'', ''mixtral-8x7b-32768'']"
  have a: "gather_stats (failing_at_run 7) ?nb
       ''write a recap of the Yankees game on July 14, 2024'' [] = (Inr ?st, ?w1)"
    by (simp add: pipe_eval failing_at_run_def)
  have b: "editor_inputs (failing_at_run 7) ?nb ?st ?w1
     = (Inr [''llama3-70b-8192'', ''gemma2-9b-it'', ''mixtral-8x7b-32768''],
        ?w1 @ [''llama3-70b-8192'', ''gemma2-9b-it'', ''mixtral-8x7b-32768''])"
    by (simp add: pipe_eval failing_at_run_def)
  from editor_inputs_declaration_order[OF a b] a b show ?thesis by auto
qed

text \<open>
  C2, as stated, fails: nothing catches a failure of a call. When the fourth call of the
  cell, the one of the first writer, fails, the cell ends with that failure: the record of
  the calls shows the researcher, the two statisticians and the first writer, and neither
  the other writers nor the editor.
\<close>

theorem writer_failure_ends_cell_counterexample:
  "pipeline (failing_at_run 3) (assistants_with \<lparr>year = 2024, month = 7, day = 14\<rparr>)
       ''write a recap of the Yankees game on July 14, 2024'' []
     = (Inl (ServiceFault ''429 Too Many Requests''),
        [''mixtral-8x7b-32768'', ''mixtral-8x7b-32768'', ''mixtral-8x7b-32768'',
         ''llama3-70b-8192''])"
  by (simp add: pipe_eval failing_at_run_def)

text \<open>
  C2 (amended): a failure of a writer's model or service call is not caught and not turned
  into a result: the writer stage ends with a failure exactly when the first writer call
  that fails raised it, in the state of the world this call left, so that no later writer
  is invoked; and the pipeline cell then ends with the same failure, without a call of
  the editor.
\<close>

theorem generation_failure_propagates:
  "(editor_inputs run nb stats w1 = (Inl e, w) \<longleftrightarrow>
      run (mlb_writer_llama nb) stats w1 = (Inl e, w) \<or>
      (\<exists>a w2. run (mlb_writer_llama nb) stats w1 = (Inr a, w2) \<and>
         (run (mlb_writer_gemma nb) stats w2 = (Inl e, w) \<or>
          (\<exists>b w3. run (mlb_writer_gemma nb) stats w2 = (Inr b, w3) \<and>
                  run (mlb_writer_mixtral nb) stats w3 = (Inl e, w))))) \<and>
   (gather_stats run nb user_prompt w0 = (Inr stats, w1) \<and>
    editor_inputs run nb stats w1 = (Inl e, w) \<longrightarrow>
      pipeline run nb user_prompt w0 = (Inl e, w))"
  by (auto simp: editor_inputs_def pipeline_def split: prod.splits sum.splits)

theorem generation_failure_propagates_witness:
  "gather_stats (failing_at_run 4) (assistants_with \<lparr>year = 2024, month = 7, day = 14\<rparr>)
       ''write a recap of the Yankees game on July 14, 2024'' []
     = (Inr (stats_text ''mixtral-8x7b-32768'' ''mixtral-8x7b-32768''),
        [''mixtral-8x7b-32768'', ''mixtral-8x7b-32768'', ''mixtral-8x7b-32768'']) \<and>
   editor_inputs (failing_at_run 4) (assistants_with \<lparr>year = 2024, month = 7, day = 14\<rparr>)
       (stats_text ''mixtral-8x7b-32768'' ''mixtral-8x7b-32768'')
       [''mixtral-8x7b-32768'', ''mixtral-8x7b-32768'', ''mixtral-8x7b-32768'']
     = (Inl (ServiceFault ''429 Too Many Requests''),
        [''mixtral-8x7b-32768'', ''mixtral-8x7b-32768'', ''mixtral-8x7b-32768'',
         ''llama3-70b-8192'', ''gemma2-9b-it'']) \<and>
   pipeline (failing_at_run 4) (assistants_with \<lparr>year = 2024, month = 7, day = 14\<rparr>)
       ''write a recap of the Yankees game on July 14, 2024'' []
     = (Inl (ServiceFault ''429 Too Many Requests''),
        [''mixtral-8x7b-32768'', ''mixtral-8x7b-32768'', ''mixtral-8x7b-32768'',
         ''llama3-70b-8192'', ''gemma2-9b-it''])"
proof -
  let ?nb = "assistants_with \<lparr>year = 2024, month = 7, day = 14\<rparr>"
  let ?st = "stats_text ''mixtral-8x7b-32768'' ''mixtral-8x7b-32768''"
  let ?w1 = "[''mixtral-8x7b-32768'', ''mixtral-8x7b-32768'', ''mixtral-8x7b-32768'']"
  let ?p = "''write a recap of the Yankees game on July 14, 2024''"
  let ?w = "?w1 @ [''llama3-70b-8192'', ''gemma2-9b-it'']"
  have a: "gather_stats (failing_at_run 4) ?nb ?p [] = (Inr ?st, ?w1)"
    by (simp add: pipe_eval failing_at_run_def)
  have b: "editor_inputs (failing_at_run 4) ?nb ?st ?w1
     = (Inl (ServiceFault ''429 Too Many Requests''), ?w)"
    by (simp add: pipe_eval failing_at_run_def)
  from generation_failure_propagates[of "failing_at_run 4" ?nb ?st ?w1
      "ServiceFault ''429 Too Many Requests''" ?w ?p "[]"] a b
  show ?thesis by simp
qed

section \<open>The default date\<close>

text \<open>
  C6, as stated, fails: the default date is computed when the agent-definition cell is
  executed, and a later run of the pipeline cell reuses it. With the agents defined on
  2024-07-15 and the pipeline run on 2024-07-20 on a prompt without a date, the first
  call, the researcher's, carries the instruction to use 2024-07-14, while the day before
  the invocation is 2024-07-19.
\<close>

theorem stale_default_date_counterexample:
  "define_agents \<lparr>year = 2024, month = 7, day = 15\<rparr>
     = Inr (assistants_with \<lparr>year = 2024, month = 7, day = 14\<rparr>) \<and>
   map (hd \<circ> instructions)
     (take 1 (snd (snd (pipeline logging_run
        (assistants_with \<lparr>year = 2024, month = 7, day = 14\<rparr>)
        ''write a recap of the latest Yankees game''
        (\<lparr>year = 2024, month = 7, day = 20\<rparr>, [])))))
     = [''Parse the Team and date (use 2024-07-14 if user does not specify) from the user question.''] \<and>
   minus_one_day \<lparr>year = 2024, month = 7, day = 20\<rparr>
     = Inr \<lparr>year = 2024, month = 7, day = 19\<rparr> \<and>
   isoformat \<lparr>year = 2024, month = 7, day = 19\<rparr> = ''2024-07-19''"
  by (simp add: pipe_eval date_eval logging_run_def)

text \<open>
  C6 (amended): for every pipeline invocation, the default date the researcher is told to
  use when the query names no date is the day before the day on which the
  agent-definition cell was executed: it is the value of \<open>default_date\<close>, written into the
  researcher's first instruction at that time, and every run of the pipeline cell that
  completes has called that researcher.
\<close>

theorem default_date_fixed_at_definition:
  assumes "define_agents today = Inr nb"
  shows "minus_one_day today = Inr (default_date nb) \<and>
         instructions (mlb_researcher nb) ! 0 =
           ''Parse the Team and date (use '' @ isoformat (default_date nb)
             @ '' if user does not specify) from the user question.'' \<and>
         (pipeline run nb user_prompt w0 = (Inr out, w) \<longrightarrow>
            (\<exists>game_information w1.
               run (mlb_researcher nb) user_prompt w0 = (Inr game_information, w1)))"
  using assms
  by (auto simp: define_agents_def assistants_with_def parse_instruction_def pipeline_def
        gather_stats_def split: sum.splits prod.splits)

theorem default_date_fixed_at_definition_witness:
  "define_agents \<lparr>year = 2024, month = 7, day = 15\<rparr>
     = Inr (assistants_with \<lparr>year = 2024, month = 7, day = 14\<rparr>) \<and>
   minus_one_day \<lparr>year = 2024, month = 7, day = 15\<rparr>
     = Inr \<lparr>year = 2024, month = 7, day = 14\<rparr> \<and>
   instructions (mlb_researcher (assistants_with \<lparr>year = 2024, month = 7, day = 14\<rparr>)) ! 0
     = ''Parse the Team and date (use 2024-07-14 if user does not specify) from the user question.''"
proof -
  have a: "define_agents \<lparr>year = 2024, month = 7, day = 15\<rparr>
     = Inr (assistants_with \<lparr>year = 2024, month = 7, day = 14\<rparr>)"
    by (simp add: define_agents_def minus_one_day_def)
  have d: "default_date (assistants_with \<lparr>year = 2024, month = 7, day = 14\<rparr>)
     = \<lparr>year = 2024, month = 7, day = 14\<rparr>"
    by (simp add: assistants_with_def)
  have i: "isoformat \<lparr>year = 2024, month = 7, day = 14\<rparr> = ''2024-07-14''"
    by (simp add: isoformat_def zero_pad_def)
  note t = default_date_fixed_at_definition[OF a]
  from t[THEN conjunct1] t[THEN conjunct2, THEN conjunct1] a d i show ?thesis by simp
qed

end
